theory Spec2Isabelle
  imports Complex_Main "HOL-Library.Char_ord" "HOL-Library.List_Lexorder"
begin

section \<open>Python values, dictionaries and exceptions\<close>

text \<open>
  The weather reports are the objects of the JSON arrays that the upstream service sends
  (\<^verbatim>\<open>response.json()\<close>): Python dictionaries from field names to decoded JSON values.
  A Python \<^verbatim>\<open>str\<close> is modelled by its UTF-8 bytes. Concatenation, emptiness and equality of
  strings are the same on code points and on their UTF-8 encoding, and the order of
  \<^verbatim>\<open>sorted\<close> on strings (by code point) is the lexicographic order of the encodings.
\<close>

datatype pyval =
    PNone
  | PBool bool
  | PInt int
  | PFloat real
  | PStr string
  | PList "pyval list"
  | PDict "(string \<times> pyval) list"

text \<open>Truth value testing, as \<^verbatim>\<open>if v\<close> and \<^verbatim>\<open>not v\<close> do it.\<close>

fun truthy :: "pyval \<Rightarrow> bool" where
  "truthy PNone = False"
| "truthy (PBool b) = b"
| "truthy (PInt i) = (i \<noteq> 0)"
| "truthy (PFloat r) = (r \<noteq> 0)"
| "truthy (PStr s) = (s \<noteq> [])"
| "truthy (PList vs) = (vs \<noteq> [])"
| "truthy (PDict kvs) = (kvs \<noteq> [])"

type_synonym report = "string \<rightharpoonup> pyval"

text \<open>\<^verbatim>\<open>d.get(k, default)\<close>; \<^verbatim>\<open>d.get(k)\<close> is \<^verbatim>\<open>d.get(k, None)\<close>.\<close>

definition dict_get :: "('k \<rightharpoonup> 'v) \<Rightarrow> 'k \<Rightarrow> 'v \<Rightarrow> 'v" where
  "dict_get d k dflt = (case d k of None \<Rightarrow> dflt | Some v \<Rightarrow> v)"

text \<open>
  The exceptions the pipeline can meet, by the classes its handlers tell apart:
  \<^verbatim>\<open>requests.exceptions.RequestException\<close> with its subclasses (connection errors, timeouts,
  \<^verbatim>\<open>HTTPError\<close>), \<^verbatim>\<open>TypeError\<close>, and any other subclass of \<^verbatim>\<open>Exception\<close>. A raised exception
  is the \<open>Inl\<close> of a result. What the handlers print is not part of the model.
\<close>

datatype exn = RequestException | TypeError | OtherException

text \<open>
  \<^verbatim>\<open>sep.join(items)\<close>: the items separated by \<^verbatim>\<open>sep\<close>; it raises \<^verbatim>\<open>TypeError\<close> when an
  item is not a \<^verbatim>\<open>str\<close>.
\<close>

fun str_items :: "pyval list \<Rightarrow> exn + string list" where
  "str_items [] = Inr []"
| "str_items (PStr s # vs) = (case str_items vs of Inl e \<Rightarrow> Inl e | Inr ss \<Rightarrow> Inr (s # ss))"
| "str_items (v # vs) = Inl TypeError"

fun join_strs :: "string \<Rightarrow> string list \<Rightarrow> string" where
  "join_strs sep [] = []"
| "join_strs sep [s] = s"
| "join_strs sep (s # t # ss) = s @ sep @ join_strs sep (t # ss)"

definition str_join :: "string \<Rightarrow> pyval list \<Rightarrow> exn + string" where
  "str_join sep vs = (case str_items vs of Inl e \<Rightarrow> Inl e | Inr ss \<Rightarrow> Inr (join_strs sep ss))"

text \<open>The separator \<^verbatim>\<open>" -> "\<close> of the source, whose arrow is U+2192 (bytes E2 86 92).\<close>

definition arrow :: string where
  "arrow = '' '' @ [CHR 0xE2, CHR 0x86, CHR 0x92] @ '' ''"

section \<open>The route label of the fallback documents\<close>

text \<open>
  Lines 58-59 and, with the same text, lines 134-135 of \<^verbatim>\<open>generate_summary_with_gemini\<close>:
  \<^verbatim>\<open>icao_codes = [m.get('stationId', '') for m in metars if m.get('stationId')]\<close> and
  \<^verbatim>\<open>route = " -> ".join(icao_codes) if icao_codes else "Unknown route"\<close>.
\<close>

definition icao_codes :: "report list \<Rightarrow> pyval list" where
  "icao_codes metars =
     map (\<lambda>m. dict_get m ''stationId'' (PStr ''''))
       (filter (\<lambda>m. truthy (dict_get m ''stationId'' PNone)) metars)"

definition route :: "report list \<Rightarrow> exn + string" where
  "route metars =
     (if icao_codes metars \<noteq> [] then str_join arrow (icao_codes metars)
      else Inr ''Unknown route'')"

section \<open>The documents and the prompt\<close>

text \<open>
  The f-string returned at lines 61-78, when the Gemini model is not available; \<open>r\<close> is the
  value of \<^verbatim>\<open>route\<close>.
\<close>

definition fallback_summary :: "string \<Rightarrow> string" where
  \<open>fallback_summary r =
     ''\<newline>'' @
     ''<div class="briefing-content">\<newline>'' @
     ''  <table class="briefing-table">\<newline>'' @
     ''    <tr><th>Route Summary</th><td>Weather briefing for '' @ r @
       ''. Conditions appear favorable for flight operations.</td></tr>\<newline>'' @
     ''    <tr><th>Recommendations</th><td>Monitor weather conditions and maintain standard flight procedures.</td></tr>\<newline>'' @
     ''  </table>\<newline>'' @
     ''  \<newline>'' @
     ''  <div class="per-airport-section">\<newline>'' @
     ''    <button class="read-more-btn" onclick="togglePerAirport()">Read More >></button>\<newline>'' @
     ''    <div class="per-airport-content" style="display:none;">\<newline>'' @
     ''      <h3>Per-Airport Conditions</h3>\<newline>'' @
     ''      <ul>\<newline>'' @
     ''        <li><strong>Note</strong>: AI weather analysis unavailable. Please check official weather sources.</li>\<newline>'' @
     ''      </ul>\<newline>'' @
     ''    </div>\<newline>'' @
     ''  </div>\<newline>'' @
     ''</div>\<newline>'' @
     ''        ''\<close>

text \<open>The f-string returned at lines 137-154, when the call of the model raised.\<close>

definition error_summary :: "string \<Rightarrow> string" where
  \<open>error_summary r =
     ''\<newline>'' @
     ''<div class="briefing-content">\<newline>'' @
     ''  <table class="briefing-table">\<newline>'' @
     ''    <tr><th>Route Summary</th><td>Weather briefing for '' @ r @
       ''. Please check official weather sources for current conditions.</td></tr>\<newline>'' @
     ''    <tr><th>Recommendations</th><td>Monitor weather conditions and maintain standard flight procedures.</td></tr>\<newline>'' @
     ''  </table>\<newline>'' @
     ''  \<newline>'' @
     ''  <div class="per-airport-section">\<newline>'' @
     ''    <button class="read-more-btn" onclick="togglePerAirport()">Read More >></button>\<newline>'' @
     ''    <div class="per-airport-content" style="display:none;">\<newline>'' @
     ''      <h3>Per-Airport Conditions</h3>\<newline>'' @
     ''      <ul>\<newline>'' @
     ''        <li><strong>Note</strong>: AI weather analysis temporarily unavailable. Please check official weather sources.</li>\<newline>'' @
     ''      </ul>\<newline>'' @
     ''    </div>\<newline>'' @
     ''  </div>\<newline>'' @
     ''</div>\<newline>'' @
     ''        ''\<close>

text \<open>The plain string of line 84.\<close>

definition not_enough_data :: string where
  "not_enough_data = ''Not enough data to generate a summary.''"

text \<open>
  Lines 80-81: \<^verbatim>\<open>"\n".join([m.get('rawOb', '') for m in metars])\<close> and the same over
  \<^verbatim>\<open>rawTAF\<close>. The comprehension has no filter: every report gives one item.
\<close>

definition metar_texts :: "report list \<Rightarrow> exn + string" where
  "metar_texts metars =
     str_join ''\<newline>'' (map (\<lambda>m. dict_get m ''rawOb'' (PStr [])) metars)"

definition taf_texts :: "report list \<Rightarrow> exn + string" where
  "taf_texts tafs =
     str_join ''\<newline>'' (map (\<lambda>t. dict_get t ''rawTAF'' (PStr [])) tafs)"

text \<open>
  Line 88: \<^verbatim>\<open>" -> ".join(sorted({m.get('stationId', '') for m in metars if m.get('stationId')}))\<close>.
  The set comprehension ranges over the same items as \<open>icao_codes\<close>. When one of them is
  not a \<^verbatim>\<open>str\<close> the line raises \<^verbatim>\<open>TypeError\<close>: in the set (an unhashable list or dict), in
  \<^verbatim>\<open>sorted\<close> (values that do not compare) or at last in \<^verbatim>\<open>join\<close>.
\<close>

definition airport_directory :: "report list \<Rightarrow> exn + string" where
  "airport_directory metars =
     (case str_items (icao_codes metars) of
        Inl e \<Rightarrow> Inl e
      | Inr ids \<Rightarrow> Inr (join_strs arrow (sorted_list_of_set (set ids))))"

text \<open>Line 89.\<close>

definition weather_data :: "string \<Rightarrow> string \<Rightarrow> string" where
  "weather_data mt tt = ''METARs:\<newline>'' @ mt @ ''\<newline>TAFs:\<newline>'' @ tt"

text \<open>
  The f-string of lines 92-126. The dash of \<^verbatim>\<open>2-3 lines\<close> is U+2013 (bytes E2 80 93), and
  the line ending in \<^verbatim>\<open>extreme\<close> has a trailing blank.
\<close>

definition prompt :: "string \<Rightarrow> string \<Rightarrow> string \<Rightarrow> string" where
  \<open>prompt pilot_profile directory wd =
     ''\<newline>'' @
     ''You are an expert aviation weather briefer. Audience pilot profile: '' @ [CHR 0x27] @
       pilot_profile @ [CHR 0x27] @ ''.\<newline>'' @
     ''\<newline>'' @
     ''Task:\<newline>'' @
     ''- Produce a very concise flight weather briefing (HTML format).\<newline>'' @
     ''- Route summary: Max 2'' @ [CHR 0xE2, CHR 0x80, CHR 0x93] @ ''3 lines, clear & safety-focused.\<newline>'' @
     ''- Per-airport summary: **exactly 1 line per ICAO**, include only if conditions are extreme \<newline>'' @
     ''  (low vis, strong winds, storms, icing, turbulence, etc.).\<newline>'' @
     ''- Keep plain language, avoid unnecessary details.\<newline>'' @
     ''\<newline>'' @
     ''HTML Output Structure:\<newline>'' @
     ''<div class="briefing-content">\<newline>'' @
     ''  <table class="briefing-table">\<newline>'' @
     ''    <tr><th>Route Summary</th><td>Brief overall conditions for the route</td></tr>\<newline>'' @
     ''    <tr><th>Recommendations</th><td>Speed, altitude, or diversion advice</td></tr>\<newline>'' @
     ''  </table>\<newline>'' @
     ''\<newline>'' @
     ''  <div class="per-airport-section">\<newline>'' @
     ''    <button class="read-more-btn" onclick="togglePerAirport()">Read More >></button>\<newline>'' @
     ''    <div class="per-airport-content" style="display:none;">\<newline>'' @
     ''      <h3>Per-Airport Conditions</h3>\<newline>'' @
     ''      <ul>\<newline>'' @
     ''        <li><strong>ICAO</strong>: 1-line summary (mention all given icao codes)</li>\<newline>'' @
     ''      </ul>\<newline>'' @
     ''    </div>\<newline>'' @
     ''  </div>\<newline>'' @
     ''</div>\<newline>'' @
     ''\<newline>'' @
     ''AIRPORT DIRECTORY:\<newline>'' @
     directory @ ''\<newline>'' @
     ''\<newline>'' @
     ''RAW WEATHER DATA START\<newline>'' @
     wd @ ''\<newline>'' @
     ''RAW WEATHER DATA END\<newline>''\<close>

section \<open>The process environment and the external calls\<close>

text \<open>
  What the pipeline reads from outside itself:
  \<^item> \<open>model\<close>, the module-level variable: \<open>None\<close> when configuring Gemini failed, or the
    model, given by what \<^verbatim>\<open>model.generate_content(prompt).text\<close> does on a prompt (it raises
    or yields the text);
  \<^item> \<open>requests_get\<close>, what \<^verbatim>\<open>requests.get(url)\<close> does on a URL: it raises or yields a response;
  \<^item> \<open>getenv\<close>, the environment variables.
  A response carries its status code and what \<^verbatim>\<open>response.json()\<close> does: it raises or yields
  the decoded array of report objects. The upstream service answers with such arrays; a
  body that decodes to another JSON value (an object, a number, an array of numbers) is
  outside the model, and no statement below is about it.
\<close>

record response =
  status_code :: nat
  json :: "exn + report list"

record env =
  model :: "(string \<Rightarrow> exn + string) option"
  requests_get :: "string \<Rightarrow> exn + response"
  getenv :: "string \<rightharpoonup> string"

text \<open>The calls that leave the process, in the order they are made.\<close>

datatype event = Http_get string | Generate_content string

text \<open>
  \<^verbatim>\<open>response.raise_for_status()\<close> of the requests library raises \<^verbatim>\<open>HTTPError\<close>, a
  \<^verbatim>\<open>RequestException\<close>, for a status code from 400 to 599 and returns otherwise.
\<close>

definition raise_for_status :: "response \<Rightarrow> exn + unit" where
  "raise_for_status r =
     (if 400 \<le> status_code r \<and> status_code r < 600 then Inl RequestException else Inr ())"

text \<open>
  The handler \<^verbatim>\<open>except requests.exceptions.RequestException\<close> of both fetch functions
  returns \<^verbatim>\<open>[]\<close>; any other exception leaves the function.
\<close>

definition except_RequestException :: "exn \<Rightarrow> exn + report list" where
  "except_RequestException e = (if e = RequestException then Inr [] else Inl e)"

text \<open>
  The \<^verbatim>\<open>try\<close> block that \<^verbatim>\<open>get_metar_data\<close> (lines 33-39) and \<^verbatim>\<open>get_taf_data\<close>
  (lines 44-50) both have: \<^verbatim>\<open>requests.get\<close>, \<^verbatim>\<open>raise_for_status\<close>, \<^verbatim>\<open>response.json()\<close>.
\<close>

definition try_fetch :: "env \<Rightarrow> string \<Rightarrow> exn + report list" where
  "try_fetch e api_url =
     (case requests_get e api_url of
        Inl x \<Rightarrow> except_RequestException x
      | Inr r \<Rightarrow>
          (case raise_for_status r of
             Inl x \<Rightarrow> except_RequestException x
           | Inr u \<Rightarrow>
               (case json r of
                  Inl x \<Rightarrow> except_RequestException x
                | Inr reports \<Rightarrow> Inr reports)))"

definition metar_url :: "string \<Rightarrow> string" where
  "metar_url icao_codes_str =
     ''https://aviationweather.gov/api/data/metar?ids='' @ icao_codes_str @
     ''&format=json&latlon=true''"

definition taf_url :: "string \<Rightarrow> string" where
  "taf_url icao_codes_str =
     ''https://aviationweather.gov/api/data/taf?ids='' @ icao_codes_str @ ''&format=json''"

definition get_metar_data :: "env \<Rightarrow> string \<Rightarrow> (exn + report list) \<times> event list" where
  "get_metar_data e icao_codes_str =
     (let api_url = metar_url icao_codes_str in (try_fetch e api_url, [Http_get api_url]))"

definition get_taf_data :: "env \<Rightarrow> string \<Rightarrow> (exn + report list) \<times> event list" where
  "get_taf_data e icao_codes_str =
     (let api_url = taf_url icao_codes_str in (try_fetch e api_url, [Http_get api_url]))"

text \<open>Line 87: \<^verbatim>\<open>os.getenv("PILOT_PROFILE", "General aviation VFR pilot")\<close>.\<close>

definition pilot_profile :: "env \<Rightarrow> string" where
  "pilot_profile e = dict_get (getenv e) ''PILOT_PROFILE'' ''General aviation VFR pilot''"

section \<open>Composing the summary\<close>

text \<open>
  \<^verbatim>\<open>generate_summary_with_gemini(metars, tafs)\<close>, lines 54-154, with the events of the run.
  The test \<^verbatim>\<open>if not model\<close> comes first (line 56); the texts are joined after it (lines
  80-81) and tested at line 83. The handler \<^verbatim>\<open>except Exception\<close> of line 131 takes every
  exception of the call of line 129 and of reading \<^verbatim>\<open>response.text\<close>; the route label it
  then builds is outside any handler. A \<^verbatim>\<open>TypeError\<close> of a \<^verbatim>\<open>join\<close> leaves the function.
\<close>

definition generate_summary_with_gemini ::
  "env \<Rightarrow> report list \<Rightarrow> report list \<Rightarrow> (exn + string) \<times> event list" where
  "generate_summary_with_gemini e metars tafs =
     (case model e of
        None \<Rightarrow>
          (case route metars of
             Inl x \<Rightarrow> (Inl x, [])
           | Inr r \<Rightarrow> (Inr (fallback_summary r), []))
      | Some generate_content \<Rightarrow>
          (case metar_texts metars of
             Inl x \<Rightarrow> (Inl x, [])
           | Inr mt \<Rightarrow>
               (case taf_texts tafs of
                  Inl x \<Rightarrow> (Inl x, [])
                | Inr tt \<Rightarrow>
                    if mt = [] \<and> tt = [] then (Inr not_enough_data, [])
                    else
                      (case airport_directory metars of
                         Inl x \<Rightarrow> (Inl x, [])
                       | Inr directory \<Rightarrow>
                           let p = prompt (pilot_profile e) directory (weather_data mt tt) in
                             (case generate_content p of
                                Inr text \<Rightarrow> (Inr text, [Generate_content p])
                              | Inl x \<Rightarrow>
                                  (case route metars of
                                     Inl y \<Rightarrow> (Inl y, [Generate_content p])
                                   | Inr r \<Rightarrow>
                                       (Inr (error_summary r), [Generate_content p])))))))"

section \<open>The briefing endpoint\<close>

text \<open>
  The JSON bodies \<^verbatim>\<open>get_briefing\<close> sends: the error object of line 168 and the
  \<^verbatim>\<open>response_data\<close> of lines 175-179. A reply is a body with its status code.
\<close>

datatype payload =
    Error_json string
  | Briefing_json string "report list" "report list"

text \<open>
  \<^verbatim>\<open>get_briefing\<close>, lines 164-181. The argument is the query string's parameters
  (\<^verbatim>\<open>request.args\<close>). An exception that leaves one of the three calls leaves the
  function, and the calls after it are not made.
\<close>

definition get_briefing ::
  "env \<Rightarrow> (string \<rightharpoonup> string) \<Rightarrow> (exn + payload \<times> nat) \<times> event list" where
  "get_briefing e args =
     (let icao_codes_str = dict_get args ''codes'' [] in
        if icao_codes_str = [] then (Inr (Error_json ''No ICAO codes provided'', 400), [])
        else
          (case get_metar_data e icao_codes_str of
             (Inl x, ev1) \<Rightarrow> (Inl x, ev1)
           | (Inr metar_reports, ev1) \<Rightarrow>
               (case get_taf_data e icao_codes_str of
                  (Inl x, ev2) \<Rightarrow> (Inl x, ev1 @ ev2)
                | (Inr taf_reports, ev2) \<Rightarrow>
                    (case generate_summary_with_gemini e metar_reports taf_reports of
                       (Inl x, ev3) \<Rightarrow> (Inl x, ev1 @ ev2 @ ev3)
                     | (Inr summary, ev3) \<Rightarrow>
                         (Inr (Briefing_json summary metar_reports taf_reports, 200),
                          ev1 @ ev2 @ ev3)))))"

section \<open>The specification's notions\<close>

text \<open>
  The definitions of this section are not taken from the source. They say, in the
  specification's words, which inputs a statement is about and which value it expects.

  The specification types the two fields a report is read for: \<open>stationId\<close> and \<open>rawOb\<close>
  of a MetarReport and \<open>rawTAF\<close> of a TafReport are text, and may be missing.
\<close>

definition str_field :: "string \<Rightarrow> report \<Rightarrow> bool" where
  "str_field k m = (case m k of None \<Rightarrow> True | Some (PStr s) \<Rightarrow> True | Some v \<Rightarrow> False)"

definition MetarReport :: "report \<Rightarrow> bool" where
  "MetarReport m = (str_field ''stationId'' m \<and> str_field ''rawOb'' m)"

definition TafReport :: "report \<Rightarrow> bool" where
  "TafReport t = str_field ''rawTAF'' t"

text \<open>
  The text of a field as the specification reads it: the empty text when the field is
  missing.
\<close>

definition field_text :: "string \<Rightarrow> report \<Rightarrow> string" where
  "field_text k m = (case m k of Some (PStr s) \<Rightarrow> s | _ \<Rightarrow> [])"

text \<open>
  The specification's route label: the \<open>stationId\<close> of each report, in the order of the
  reports and with repetitions, joined by the arrow; \<open>Unknown route\<close> when there is none.
  A \<open>stationId\<close> that is missing or empty is not there.
\<close>

definition spec_station_ids :: "report list \<Rightarrow> string list" where
  "spec_station_ids metars = filter (\<lambda>s. s \<noteq> []) (map (field_text ''stationId'') metars)"

definition spec_route_label :: "report list \<Rightarrow> string" where
  "spec_route_label metars =
     (if spec_station_ids metars = [] then ''Unknown route''
      else join_strs arrow (spec_station_ids metars))"

text \<open>
  The upstream outcomes the specification's error taxonomy covers, for one fetch: a
  transport failure or an error status, both a \<^verbatim>\<open>RequestException\<close>, or a response whose
  body is undecodable (a \<^verbatim>\<open>RequestException\<close> again) or decodes to reports of the right type.
\<close>

definition upstream_outcome :: "(report \<Rightarrow> bool) \<Rightarrow> exn + response \<Rightarrow> bool" where
  "upstream_outcome P out =
     (case out of
        Inl x \<Rightarrow> x = RequestException
      | Inr r \<Rightarrow>
          (400 \<le> status_code r \<and> status_code r < 600) \<or>
          (case json r of Inl x \<Rightarrow> x = RequestException | Inr reports \<Rightarrow> list_all P reports))"

section \<open>Joining, station identifiers and the route label\<close>

lemma str_items_map_PStr: "str_items (map PStr ss) = Inr ss"
  by (induction ss) auto

lemma str_join_map_PStr: "str_join sep (map PStr ss) = Inr (join_strs sep ss)"
  by (simp add: str_join_def str_items_map_PStr)

lemma icao_codes_Nil: "icao_codes [] = []"
  by (simp add: icao_codes_def)

lemma icao_codes_Cons:
  "icao_codes (m # ms) =
     (if truthy (dict_get m ''stationId'' PNone)
      then dict_get m ''stationId'' (PStr []) # icao_codes ms else icao_codes ms)"
  by (simp add: icao_codes_def)

lemma spec_station_ids_Nil: "spec_station_ids [] = []"
  by (simp add: spec_station_ids_def)

lemma spec_station_ids_Cons:
  "spec_station_ids (m # ms) =
     (if field_text ''stationId'' m \<noteq> []
      then field_text ''stationId'' m # spec_station_ids ms else spec_station_ids ms)"
  by (simp add: spec_station_ids_def)

text \<open>On reports whose \<open>stationId\<close> is text, the comprehension yields the specification's list.\<close>

lemma icao_codes_typed:
  "list_all (str_field ''stationId'') metars \<Longrightarrow>
   icao_codes metars = map PStr (spec_station_ids metars)"
proof (induction metars)
  case Nil
  show ?case by (simp add: icao_codes_Nil spec_station_ids_Nil)
next
  case (Cons m ms)
  then have ih: "icao_codes ms = map PStr (spec_station_ids ms)" by simp
  have sf: "str_field ''stationId'' m" using Cons.prems by simp
  show ?case
  proof (cases "m ''stationId''")
    case None
    then show ?thesis
      using ih by (simp add: icao_codes_Cons spec_station_ids_Cons dict_get_def field_text_def)
  next
    case (Some v)
    then obtain t where "v = PStr t" using sf by (cases v) (simp_all add: str_field_def)
    then show ?thesis
      using Some ih
      by (simp add: icao_codes_Cons spec_station_ids_Cons dict_get_def field_text_def)
  qed
qed

text \<open>Whenever all items of the comprehension are text, they are the specification's list.\<close>

lemma str_items_icao_codes:
  "str_items (icao_codes metars) = Inr ids \<Longrightarrow>
   ids = spec_station_ids metars \<and> icao_codes metars = map PStr ids"
proof (induction metars arbitrary: ids)
  case Nil
  then show ?case by (simp add: icao_codes_Nil spec_station_ids_Nil)
next
  case (Cons m ms)
  show ?case
  proof (cases "m ''stationId''")
    case None
    then show ?thesis
      using Cons by (simp add: icao_codes_Cons spec_station_ids_Cons dict_get_def field_text_def)
  next
    case (Some v)
    show ?thesis
    proof (cases "truthy v")
      case False
      then have "field_text ''stationId'' m = []"
        using Some by (cases v) (simp_all add: field_text_def)
      then show ?thesis
        using Cons Some False by (simp add: icao_codes_Cons spec_station_ids_Cons dict_get_def)
    next
      case True
      then have e: "str_items (v # icao_codes ms) = Inr ids"
        using Cons.prems Some by (simp add: icao_codes_Cons dict_get_def)
      then obtain t where v: "v = PStr t" by (cases v) simp_all
      then have t: "t \<noteq> []" using True by simp
      from e v obtain ids' where i: "str_items (icao_codes ms) = Inr ids'" "ids = t # ids'"
        by (auto split: sum.splits)
      from Cons.IH [OF i(1)] show ?thesis
        using Some v t i(2) True
        by (simp add: icao_codes_Cons spec_station_ids_Cons dict_get_def field_text_def)
    qed
  qed
qed

lemma route_of_ids:
  "icao_codes metars = map PStr (spec_station_ids metars) \<Longrightarrow>
   route metars = Inr (spec_route_label metars)"
  by (simp add: route_def spec_route_label_def str_join_map_PStr)

lemma route_typed:
  "list_all (str_field ''stationId'') metars \<Longrightarrow> route metars = Inr (spec_route_label metars)"
  by (rule route_of_ids) (rule icao_codes_typed)

text \<open>Once line 88 has built the directory, the route label of line 135 cannot raise.\<close>

lemma route_after_directory:
  assumes "airport_directory metars = Inr d"
  shows "route metars = Inr (spec_route_label metars)"
proof -
  from assms obtain ids where "str_items (icao_codes metars) = Inr ids"
    by (auto simp: airport_directory_def split: sum.splits)
  from str_items_icao_codes [OF this] show ?thesis by (simp add: route_of_ids)
qed

lemma airport_directory_typed:
  "list_all (str_field ''stationId'') metars \<Longrightarrow>
   airport_directory metars =
     Inr (join_strs arrow (sorted_list_of_set (set (spec_station_ids metars))))"
  by (simp add: airport_directory_def icao_codes_typed str_items_map_PStr)

lemma airport_directory_Inr:
  assumes "airport_directory metars = Inr d"
  shows "d = join_strs arrow (sorted_list_of_set (set (spec_station_ids metars)))"
proof -
  from assms obtain ids where i: "str_items (icao_codes metars) = Inr ids"
    by (auto simp: airport_directory_def split: sum.splits)
  from str_items_icao_codes [OF i] assms i show ?thesis by (simp add: airport_directory_def)
qed

section \<open>The branches of the summary\<close>

lemma generate_unconfigured:
  "model e = None \<Longrightarrow>
   generate_summary_with_gemini e metars tafs =
     (case route metars of Inl x \<Rightarrow> (Inl x, []) | Inr r \<Rightarrow> (Inr (fallback_summary r), []))"
  by (simp add: generate_summary_with_gemini_def)

lemma generate_configured:
  "model e = Some g \<Longrightarrow> metar_texts metars = Inr mt \<Longrightarrow> taf_texts tafs = Inr tt \<Longrightarrow>
   generate_summary_with_gemini e metars tafs =
     (if mt = [] \<and> tt = [] then (Inr not_enough_data, [])
      else (case airport_directory metars of
              Inl x \<Rightarrow> (Inl x, [])
            | Inr d \<Rightarrow>
                (case g (prompt (pilot_profile e) d (weather_data mt tt)) of
                   Inr text \<Rightarrow>
                     (Inr text, [Generate_content (prompt (pilot_profile e) d (weather_data mt tt))])
                 | Inl x \<Rightarrow>
                     (Inr (error_summary (spec_route_label metars)),
                      [Generate_content (prompt (pilot_profile e) d (weather_data mt tt))]))))"
  by (auto simp: generate_summary_with_gemini_def Let_def route_after_directory
      split: sum.splits)

text \<open>The model is called only on the path through lines 80-129.\<close>

lemma generate_invoked:
  assumes "Generate_content p \<in> set (snd (generate_summary_with_gemini e metars tafs))"
  shows "\<exists>g mt tt d. model e = Some g \<and> metar_texts metars = Inr mt \<and>
           taf_texts tafs = Inr tt \<and> \<not> (mt = [] \<and> tt = []) \<and>
           airport_directory metars = Inr d \<and>
           p = prompt (pilot_profile e) d (weather_data mt tt)"
proof (cases "model e")
  case None
  then show ?thesis using assms by (simp add: generate_unconfigured split: sum.splits)
next
  case (Some g)
  show ?thesis
  proof (cases "metar_texts metars")
    case (Inl x)
    then show ?thesis using assms Some by (simp add: generate_summary_with_gemini_def)
  next
    case mt: (Inr mt)
    show ?thesis
    proof (cases "taf_texts tafs")
      case (Inl x)
      then show ?thesis using assms Some mt by (simp add: generate_summary_with_gemini_def)
    next
      case tt: (Inr tt)
      show ?thesis
        using assms Some mt tt by (auto simp: generate_configured split: if_splits sum.splits)
    qed
  qed
qed

lemma fallback_summary_neq: "fallback_summary r \<noteq> not_enough_data"
  by (simp add: fallback_summary_def not_enough_data_def)

text \<open>The row of the fallback document that holds the route label.\<close>

lemma fallback_summary_route_cell:
  \<open>\<exists>pre post. \<forall>r. fallback_summary r =
     pre @ ''<tr><th>Route Summary</th><td>Weather briefing for '' @ r @
     ''. Conditions appear favorable for flight operations.</td></tr>'' @ post\<close>
  by (rule exI [of _
        \<open>''\<newline><div class="briefing-content">\<newline>  <table class="briefing-table">\<newline>    ''\<close>])
     (simp add: fallback_summary_def)

section \<open>The empty-data short circuit\<close>

text \<open>A join raises nothing but \<^verbatim>\<open>TypeError\<close>.\<close>

lemma str_items_Inl: "str_items vs = Inl x \<Longrightarrow> x = TypeError"
proof (induction vs arbitrary: x rule: str_items.induct)
  case 1
  then show ?case by simp
next
  case (2 s vs)
  then show ?case by (auto split: sum.splits)
qed simp_all

text \<open>The route label is the specification's label, unless line 59 raises.\<close>

lemma route_cases:
  "route metars = Inl TypeError \<or> route metars = Inr (spec_route_label metars)"
proof (cases "str_items (icao_codes metars)")
  case (Inl x)
  then have x: "x = TypeError" by (rule str_items_Inl)
  from Inl have "icao_codes metars \<noteq> []" by auto
  with Inl x show ?thesis by (simp add: route_def str_join_def)
next
  case (Inr ids)
  from str_items_icao_codes [OF this] show ?thesis by (simp add: route_of_ids)
qed

text \<open>
  The availability test of line 56 precedes the empty-data test of line 83. With no model
  and no reports both texts are empty, and the summary is the fallback document, not the
  plain string. This refutes claim C1 as it is stated.
\<close>

theorem empty_blocks_unconfigured_counterexample:
  "metar_texts [] = Inr [] \<and> taf_texts [] = Inr [] \<and>
   generate_summary_with_gemini
     \<lparr>model = None, requests_get = (\<lambda>u. Inl RequestException), getenv = Map.empty\<rparr> [] []
     = (Inr (fallback_summary ''Unknown route''), []) \<and>
   fallback_summary ''Unknown route'' \<noteq> not_enough_data"
  by (simp add: metar_texts_def taf_texts_def str_join_def generate_summary_with_gemini_def
      route_def icao_codes_def fallback_summary_neq)

text \<open>
  Claim C1, amended: when both text blocks are empty and the model is configured, the
  summary is the plain string \<open>Not enough data to generate a summary.\<close> and the model is
  not called. When the model is not configured, the availability test comes first: the
  summary is the fallback document of lines 61-78, whose Route Summary cell holds the
  route label, whenever every \<open>stationId\<close> is text when present; for any reports the function either returns that
  document or raises \<^verbatim>\<open>TypeError\<close> at line 59 (a \<open>stationId\<close> that is truthy and is not text);
  it never returns the plain string, and nothing is called.
\<close>

theorem empty_blocks_short_circuit:
  assumes "metar_texts metars = Inr []" and "taf_texts tafs = Inr []"
  shows \<open>(model e \<noteq> None \<longrightarrow>
            generate_summary_with_gemini e metars tafs =
              (Inr ''Not enough data to generate a summary.'', [])) \<and>
         (model e = None \<and> list_all (str_field ''stationId'') metars \<longrightarrow>
            generate_summary_with_gemini e metars tafs =
              (Inr (fallback_summary (spec_route_label metars)), [])) \<and>
         (model e = None \<longrightarrow>
            (generate_summary_with_gemini e metars tafs = (Inl TypeError, []) \<or>
             generate_summary_with_gemini e metars tafs =
               (Inr (fallback_summary (spec_route_label metars)), [])) \<and>
            fst (generate_summary_with_gemini e metars tafs) \<noteq>
              Inr ''Not enough data to generate a summary.'' \<and>
            snd (generate_summary_with_gemini e metars tafs) = []) \<and>
         (\<exists>pre post. \<forall>r. fallback_summary r =
            pre @ ''<tr><th>Route Summary</th><td>Weather briefing for '' @ r @
            ''. Conditions appear favorable for flight operations.</td></tr>'' @ post)\<close>
proof (intro conjI impI)
  assume "model e \<noteq> None"
  then obtain g where "model e = Some g" by auto
  from generate_configured [OF this assms]
  show "generate_summary_with_gemini e metars tafs =
      (Inr ''Not enough data to generate a summary.'', [])"
    by (simp add: not_enough_data_def)
next
  assume "model e = None \<and> list_all (str_field ''stationId'') metars"
  then show "generate_summary_with_gemini e metars tafs =
      (Inr (fallback_summary (spec_route_label metars)), [])"
    by (simp add: generate_unconfigured route_typed)
next
  assume n: "model e = None"
  show "generate_summary_with_gemini e metars tafs = (Inl TypeError, []) \<or>
      generate_summary_with_gemini e metars tafs =
        (Inr (fallback_summary (spec_route_label metars)), [])"
    using route_cases [of metars] by (auto simp: generate_unconfigured [OF n])
  show "fst (generate_summary_with_gemini e metars tafs) \<noteq>
      Inr ''Not enough data to generate a summary.''"
    using fallback_summary_neq
    by (simp add: generate_unconfigured [OF n] not_enough_data_def split: sum.splits)
  show "snd (generate_summary_with_gemini e metars tafs) = []"
    by (simp add: generate_unconfigured [OF n] split: sum.splits)
next
  show \<open>\<exists>pre post. \<forall>r. fallback_summary r =
      pre @ ''<tr><th>Route Summary</th><td>Weather briefing for '' @ r @
      ''. Conditions appear favorable for flight operations.</td></tr>'' @ post\<close>
    by (rule fallback_summary_route_cell)
qed

text \<open>
  One METAR without \<open>rawOb\<close> and one TAF without \<open>rawTAF\<close>: with a model that would answer,
  the plain string and no call; without a model, the fallback document for KJFK. And one
  METAR whose \<open>stationId\<close> is the number 123, with no TAF and no model: both texts are
  empty and line 59 raises.
\<close>

theorem empty_blocks_short_circuit_witness:
  "generate_summary_with_gemini
     \<lparr>model = Some (\<lambda>p. Inr ''<p>briefing</p>''),
      requests_get = (\<lambda>u. Inl RequestException), getenv = Map.empty\<rparr>
     [[''stationId'' \<mapsto> PStr ''KJFK'']] [Map.empty] =
     (Inr ''Not enough data to generate a summary.'', []) \<and>
   generate_summary_with_gemini
     \<lparr>model = None, requests_get = (\<lambda>u. Inl RequestException), getenv = Map.empty\<rparr>
     [[''stationId'' \<mapsto> PStr ''KJFK'']] [Map.empty] = (Inr (fallback_summary ''KJFK''), []) \<and>
   metar_texts [[''stationId'' \<mapsto> PInt 123]] = Inr [] \<and>
   generate_summary_with_gemini
     \<lparr>model = None, requests_get = (\<lambda>u. Inl RequestException), getenv = Map.empty\<rparr>
     [[''stationId'' \<mapsto> PInt 123]] [] = (Inl TypeError, [])"
proof -
  let ?ms = "[[''stationId'' \<mapsto> PStr ''KJFK'']] :: report list"
  let ?ts = "[Map.empty] :: report list"
  let ?bad = "[[''stationId'' \<mapsto> PInt 123]] :: report list"
  let ?e0 = "\<lparr>model = None, requests_get = (\<lambda>u. Inl RequestException),
    getenv = Map.empty\<rparr>"
  have m: "metar_texts ?ms = Inr []"
    by (simp add: metar_texts_def str_join_def dict_get_def)
  have t: "taf_texts ?ts = Inr []"
    by (simp add: taf_texts_def str_join_def dict_get_def)
  have l: "spec_route_label ?ms = ''KJFK''"
    by (simp add: spec_route_label_def spec_station_ids_def field_text_def)
  have b: "metar_texts ?bad = Inr []"
    by (simp add: metar_texts_def str_join_def dict_get_def)
  have n: "taf_texts [] = Inr []" by (simp add: taf_texts_def str_join_def)
  have r: "generate_summary_with_gemini ?e0 ?bad [] = (Inl TypeError, [])"
    by (simp add: generate_summary_with_gemini_def route_def icao_codes_def str_join_def
        dict_get_def)
  show ?thesis
    using
      empty_blocks_short_circuit [OF m t,
        of "\<lparr>model = Some (\<lambda>p. Inr ''<p>briefing</p>''),
             requests_get = (\<lambda>u. Inl RequestException), getenv = Map.empty\<rparr>"]
      empty_blocks_short_circuit [OF m t, of ?e0]
      empty_blocks_short_circuit [OF b n, of ?e0]
    by (simp add: str_field_def l b r)
qed

section \<open>The raw-text blocks\<close>

lemma get_field_typed:
  "list_all (str_field k) ms \<Longrightarrow>
   map (\<lambda>m. dict_get m k (PStr [])) ms = map PStr (map (field_text k) ms)"
proof (induction ms)
  case Nil
  show ?case by simp
next
  case (Cons m ms)
  have "dict_get m k (PStr []) = PStr (field_text k m)"
  proof (cases "m k")
    case None
    then show ?thesis by (simp add: dict_get_def field_text_def)
  next
    case (Some v)
    moreover have "str_field k m" using Cons.prems by simp
    ultimately obtain t where "v = PStr t" by (cases v) (simp_all add: str_field_def)
    with Some show ?thesis by (simp add: dict_get_def field_text_def)
  qed
  with Cons show ?case by simp
qed

lemma join_strs_empty_iff:
  "sep \<noteq> [] \<Longrightarrow>
   join_strs sep ss = [] \<longleftrightarrow> length ss \<le> 1 \<and> list_all (\<lambda>s. s = []) ss"
  by (induction sep ss rule: join_strs.induct) auto

lemma join_strs_all_empty:
  "list_all (\<lambda>s. s = []) ss \<Longrightarrow> join_strs [c] ss = replicate (length ss - 1) c"
  by (induction "[c]" ss rule: join_strs.induct) auto

lemma metar_texts_typed:
  assumes "list_all (str_field ''rawOb'') metars"
  shows "metar_texts metars = Inr (join_strs ''\<newline>'' (map (field_text ''rawOb'') metars))"
  by (simp only: metar_texts_def get_field_typed [OF assms] str_join_map_PStr)

lemma taf_texts_typed:
  assumes "list_all (str_field ''rawTAF'') tafs"
  shows "taf_texts tafs = Inr (join_strs ''\<newline>'' (map (field_text ''rawTAF'') tafs))"
  by (simp only: taf_texts_def get_field_typed [OF assms] str_join_map_PStr)

text \<open>
  Lines 80-81 skip nothing: a report without \<open>rawOb\<close> contributes an empty item, and the
  items are still separated by newlines. Two METARs and two TAFs, all without their raw
  text, give two blocks that are one newline each, not empty strings; a report without
  \<open>rawOb\<close> between two others leaves an empty line. With a configured model the first
  input does not take the empty-data exit of line 83: the model is called. This refutes
  claim C2 as it is stated.
\<close>

theorem raw_text_blocks_counterexample:
  "metar_texts [Map.empty, Map.empty] = Inr ''\<newline>'' \<and>
   taf_texts [Map.empty, Map.empty] = Inr ''\<newline>'' \<and>
   metar_texts [Map.empty, Map.empty] \<noteq> Inr [] \<and>
   taf_texts [Map.empty, Map.empty] \<noteq> Inr [] \<and>
   metar_texts [[''rawOb'' \<mapsto> PStr ''A''], Map.empty, [''rawOb'' \<mapsto> PStr ''B'']] =
     Inr ''A\<newline>\<newline>B'' \<and>
   generate_summary_with_gemini
     \<lparr>model = Some (\<lambda>p. Inr ''ok''), requests_get = (\<lambda>u. Inl RequestException),
      getenv = Map.empty\<rparr>
     [Map.empty, Map.empty] [Map.empty, Map.empty] =
     (Inr ''ok'',
      [Generate_content
         (prompt ''General aviation VFR pilot'' [] (weather_data ''\<newline>'' ''\<newline>''))])"
  by (simp add: generate_summary_with_gemini_def metar_texts_def taf_texts_def str_join_def
      dict_get_def airport_directory_def icao_codes_def pilot_profile_def)

text \<open>
  Claim C2, amended: the METAR text block is the newline-join of one item for every
  MetarReport, in order, the item being its \<open>rawOb\<close> or the empty string when \<open>rawOb\<close> is
  missing; no record is skipped. Likewise the TAF text block from \<open>rawTAF\<close>. So a block
  is the empty string exactly when there is no report or a single report whose raw text
  is missing or empty, and for reports whose raw text is all missing or empty the block
  is one newline fewer than there are reports.
\<close>

theorem raw_text_blocks_keep_every_report:
  assumes "list_all (str_field ''rawOb'') metars" and "list_all (str_field ''rawTAF'') tafs"
  shows "metar_texts metars = Inr (join_strs ''\<newline>'' (map (field_text ''rawOb'') metars)) \<and>
         taf_texts tafs = Inr (join_strs ''\<newline>'' (map (field_text ''rawTAF'') tafs)) \<and>
         (metar_texts metars = Inr [] \<longleftrightarrow>
            length metars \<le> 1 \<and> list_all (\<lambda>m. field_text ''rawOb'' m = []) metars) \<and>
         (taf_texts tafs = Inr [] \<longleftrightarrow>
            length tafs \<le> 1 \<and> list_all (\<lambda>t. field_text ''rawTAF'' t = []) tafs) \<and>
         (list_all (\<lambda>m. field_text ''rawOb'' m = []) metars \<longrightarrow>
            metar_texts metars = Inr (replicate (length metars - 1) CHR ''\<newline>'')) \<and>
         (list_all (\<lambda>t. field_text ''rawTAF'' t = []) tafs \<longrightarrow>
            taf_texts tafs = Inr (replicate (length tafs - 1) CHR ''\<newline>''))"
proof -
  note m = metar_texts_typed [OF assms(1)]
  note t = taf_texts_typed [OF assms(2)]
  have me: "metar_texts metars = Inr [] \<longleftrightarrow>
      length metars \<le> 1 \<and> list_all (\<lambda>m. field_text ''rawOb'' m = []) metars"
    by (simp add: m join_strs_empty_iff list_all_iff)
  have te: "taf_texts tafs = Inr [] \<longleftrightarrow>
      length tafs \<le> 1 \<and> list_all (\<lambda>t. field_text ''rawTAF'' t = []) tafs"
    by (simp add: t join_strs_empty_iff list_all_iff)
  have mr: "list_all (\<lambda>m. field_text ''rawOb'' m = []) metars \<longrightarrow>
      metar_texts metars = Inr (replicate (length metars - 1) CHR ''\<newline>'')"
    using join_strs_all_empty [of "map (field_text ''rawOb'') metars" "CHR ''\<newline>''"]
    by (simp add: m list_all_iff)
  have tr: "list_all (\<lambda>t. field_text ''rawTAF'' t = []) tafs \<longrightarrow>
      taf_texts tafs = Inr (replicate (length tafs - 1) CHR ''\<newline>'')"
    using join_strs_all_empty [of "map (field_text ''rawTAF'') tafs" "CHR ''\<newline>''"]
    by (simp add: t list_all_iff)
  from m t me te mr tr show ?thesis by blast
qed

text \<open>
  Three METARs, the second without \<open>rawOb\<close> and the third with an empty one; two TAFs
  without text; and a single METAR without \<open>rawOb\<close>, whose block is empty.
\<close>

theorem raw_text_blocks_keep_every_report_witness:
  "metar_texts
     [[''rawOb'' \<mapsto> PStr ''KJFK 041651Z''], Map.empty, [''rawOb'' \<mapsto> PStr '''']] =
     Inr ''KJFK 041651Z\<newline>\<newline>'' \<and>
   taf_texts [Map.empty, [''rawTAF'' \<mapsto> PStr '''']] = Inr ''\<newline>'' \<and>
   metar_texts [[''stationId'' \<mapsto> PStr ''KJFK'']] = Inr ''''"
proof -
  let ?ms = "[[''rawOb'' \<mapsto> PStr ''KJFK 041651Z''], Map.empty, [''rawOb'' \<mapsto> PStr '''']]
    :: report list"
  let ?ts = "[Map.empty, [''rawTAF'' \<mapsto> PStr '''']] :: report list"
  let ?m1 = "[[''stationId'' \<mapsto> PStr ''KJFK'']] :: report list"
  have a: "list_all (str_field ''rawOb'') ?ms" by (simp add: str_field_def)
  have b: "list_all (str_field ''rawTAF'') ?ts" by (simp add: str_field_def)
  have c: "list_all (str_field ''rawOb'') ?m1" by (simp add: str_field_def)
  show ?thesis
    using raw_text_blocks_keep_every_report [OF a b] raw_text_blocks_keep_every_report [OF c b]
    by (simp add: field_text_def)
qed

section \<open>The route label and the unconfigured fallback\<close>

text \<open>
  Claim C7: the route label is the \<open>stationId\<close> values of the MetarReports joined with the
  arrow separator, in the order of the reports and with repetitions kept; it is
  \<open>Unknown route\<close> when no report has a \<open>stationId\<close>. Both fallback branches compute it
  with the same two lines, here the one function \<open>route\<close>.
\<close>

theorem route_label_derivation:
  assumes "list_all (str_field ''stationId'') metars"
  shows "route metars =
           Inr (if spec_station_ids metars = [] then ''Unknown route''
                else join_strs arrow (spec_station_ids metars))"
  using route_typed [OF assms] by (simp add: spec_route_label_def)

text \<open>
  The example of the specification, KJFK, KBOS, KJFK; reports without a \<open>stationId\<close> or
  with an empty one; and no report at all.
\<close>

theorem route_label_derivation_witness:
  "route [[''stationId'' \<mapsto> PStr ''KJFK''], [''stationId'' \<mapsto> PStr ''KBOS''],
          [''stationId'' \<mapsto> PStr ''KJFK'']] =
     Inr (''KJFK '' @ [CHR 0xE2, CHR 0x86, CHR 0x92] @ '' KBOS '' @
          [CHR 0xE2, CHR 0x86, CHR 0x92] @ '' KJFK'') \<and>
   route [[''rawOb'' \<mapsto> PStr ''AUTO 10SM CLR''], [''stationId'' \<mapsto> PStr '''']] =
     Inr ''Unknown route'' \<and>
   route [] = Inr ''Unknown route''"
proof -
  let ?a = "[[''stationId'' \<mapsto> PStr ''KJFK''], [''stationId'' \<mapsto> PStr ''KBOS''],
          [''stationId'' \<mapsto> PStr ''KJFK'']] :: report list"
  let ?b = "[[''rawOb'' \<mapsto> PStr ''AUTO 10SM CLR''], [''stationId'' \<mapsto> PStr '''']]
    :: report list"
  have a: "list_all (str_field ''stationId'') ?a" by (simp add: str_field_def)
  have b: "list_all (str_field ''stationId'') ?b" by (simp add: str_field_def)
  have c: "list_all (str_field ''stationId'') ([] :: report list)" by simp
  show ?thesis
    using route_label_derivation [OF a] route_label_derivation [OF b]
      route_label_derivation [OF c]
    by (simp add: spec_station_ids_def field_text_def arrow_def)
qed



section \<open>The call of the model\<close>

text \<open>A run calls the model at most once.\<close>

lemma generate_events:
  "snd (generate_summary_with_gemini e metars tafs) = [] \<or>
   (\<exists>p. snd (generate_summary_with_gemini e metars tafs) = [Generate_content p])"
  by (auto simp: generate_summary_with_gemini_def Let_def split: option.splits sum.splits)

text \<open>What a run returns when it has called the model.\<close>

lemma generate_invoked_result:
  assumes "model e = Some g"
    and "Generate_content p \<in> set (snd (generate_summary_with_gemini e metars tafs))"
  shows "generate_summary_with_gemini e metars tafs =
           (case g p of
              Inr text \<Rightarrow> (Inr text, [Generate_content p])
            | Inl x \<Rightarrow> (Inr (error_summary (spec_route_label metars)), [Generate_content p]))"
proof -
  from generate_invoked [OF assms(2)] assms(1) obtain mt tt d where
    h: "metar_texts metars = Inr mt" "taf_texts tafs = Inr tt" "\<not> (mt = [] \<and> tt = [])"
      "airport_directory metars = Inr d" "p = prompt (pilot_profile e) d (weather_data mt tt)"
    by auto
  show ?thesis
    using h(3,4,5) by (simp add: generate_configured [OF assms(1) h(1,2)] split: sum.splits)
qed

lemma generate_events_directory:
  "snd (generate_summary_with_gemini e metars tafs) = [] \<or>
   (\<exists>wd. snd (generate_summary_with_gemini e metars tafs) =
      [Generate_content
         (prompt (pilot_profile e)
            (join_strs arrow (sorted_list_of_set (set (spec_station_ids metars)))) wd)])"
proof (cases "snd (generate_summary_with_gemini e metars tafs) = []")
  case True
  then show ?thesis by simp
next
  case False
  with generate_events [of e metars tafs] obtain p where
    p: "snd (generate_summary_with_gemini e metars tafs) = [Generate_content p]" by blast
  then have "Generate_content p \<in> set (snd (generate_summary_with_gemini e metars tafs))"
    by simp
  from generate_invoked [OF this] obtain mt tt d where
    "airport_directory metars = Inr d" "p = prompt (pilot_profile e) d (weather_data mt tt)"
    by blast
  with airport_directory_Inr [of metars d] p show ?thesis by blast
qed

lemma MetarReport_stationId:
  "list_all MetarReport metars \<Longrightarrow> list_all (str_field ''stationId'') metars"
  by (simp add: list_all_iff MetarReport_def)

lemma MetarReport_rawOb:
  "list_all MetarReport metars \<Longrightarrow> list_all (str_field ''rawOb'') metars"
  by (simp add: list_all_iff MetarReport_def)

lemma TafReport_rawTAF:
  "list_all TafReport tafs \<Longrightarrow> list_all (str_field ''rawTAF'') tafs"
  by (simp add: list_all_iff TafReport_def)

text \<open>
  Claim C8: the airport directory of the prompt is the list of the distinct \<open>stationId\<close>
  values of the MetarReports in ascending order, joined with the arrow separator, where
  the route label keeps the order of the reports and their repetitions. When the model
  is called, it is called once, on a prompt holding this directory.
\<close>

theorem airport_directory_sorted_distinct:
  assumes "list_all (str_field ''stationId'') metars"
  shows "\<exists>ds. airport_directory metars = Inr (join_strs arrow ds) \<and>
              sorted_wrt (<) ds \<and> set ds = set (spec_station_ids metars) \<and>
              (snd (generate_summary_with_gemini e metars tafs) = [] \<or>
               (\<exists>wd. snd (generate_summary_with_gemini e metars tafs) =
                  [Generate_content (prompt (pilot_profile e) (join_strs arrow ds) wd)]))"
proof -
  let ?ds = "sorted_list_of_set (set (spec_station_ids metars))"
  have d: "airport_directory metars = Inr (join_strs arrow ?ds)"
    by (rule airport_directory_typed [OF assms])
  have s: "sorted_wrt (<) ?ds" by (simp add: strict_sorted_iff)
  have t: "set ?ds = set (spec_station_ids metars)" by simp
  from d s t generate_events_directory [of e metars tafs] show ?thesis by blast
qed

text \<open>
  KJFK, KBOS, KJFK: the directory is KBOS, KJFK, while the route label of the same
  reports is KJFK, KBOS, KJFK.
\<close>

theorem airport_directory_sorted_distinct_witness:
  "airport_directory
     [[''stationId'' \<mapsto> PStr ''KJFK''], [''stationId'' \<mapsto> PStr ''KBOS''],
      [''stationId'' \<mapsto> PStr ''KJFK'']] = Inr (''KBOS'' @ arrow @ ''KJFK'') \<and>
   route
     [[''stationId'' \<mapsto> PStr ''KJFK''], [''stationId'' \<mapsto> PStr ''KBOS''],
      [''stationId'' \<mapsto> PStr ''KJFK'']] = Inr (''KJFK'' @ arrow @ ''KBOS'' @ arrow @ ''KJFK'')"
proof -
  let ?a = "[[''stationId'' \<mapsto> PStr ''KJFK''], [''stationId'' \<mapsto> PStr ''KBOS''],
          [''stationId'' \<mapsto> PStr ''KJFK'']] :: report list"
  have a: "list_all (str_field ''stationId'') ?a" by (simp add: str_field_def)
  from airport_directory_sorted_distinct [OF a] obtain ds where
    d: "airport_directory ?a = Inr (join_strs arrow ds)" and s: "sorted_wrt (<) ds"
    and e: "set ds = set (spec_station_ids ?a)" by blast
  have "set ds = set [''KBOS'', ''KJFK'']"
    using e by (auto simp add: spec_station_ids_def field_text_def)
  moreover have "sorted_wrt (<) [''KBOS'', ''KJFK'']" by simp
  ultimately have "ds = [''KBOS'', ''KJFK'']" using s by (metis strict_sorted_equal)
  with d have "airport_directory ?a = Inr (''KBOS'' @ arrow @ ''KJFK'')" by simp
  moreover have "route ?a = Inr (''KJFK'' @ arrow @ ''KBOS'' @ arrow @ ''KJFK'')"
    by (simp add: route_def icao_codes_def str_join_def dict_get_def)
  ultimately show ?thesis by simp
qed

text \<open>
  Claim C9: when the model is configured, the reports are MetarReports and TafReports
  and at least one of the two text blocks is not empty, the model is called once; and
  when that call yields a text, the summary is this text as it is.
\<close>

theorem ai_text_returned_unmodified:
  assumes "model e = Some g" and "list_all MetarReport metars" and "list_all TafReport tafs"
    and "metar_texts metars \<noteq> Inr [] \<or> taf_texts tafs \<noteq> Inr []"
  shows "\<exists>p. snd (generate_summary_with_gemini e metars tafs) = [Generate_content p] \<and>
             (\<forall>text. g p = Inr text \<longrightarrow>
                generate_summary_with_gemini e metars tafs = (Inr text, [Generate_content p]))"
proof -
  let ?mt = "join_strs ''\<newline>'' (map (field_text ''rawOb'') metars)"
  let ?tt = "join_strs ''\<newline>'' (map (field_text ''rawTAF'') tafs)"
  let ?d = "join_strs arrow (sorted_list_of_set (set (spec_station_ids metars)))"
  let ?p = "prompt (pilot_profile e) ?d (weather_data ?mt ?tt)"
  have m: "metar_texts metars = Inr ?mt"
    by (rule metar_texts_typed [OF MetarReport_rawOb [OF assms(2)]])
  have t: "taf_texts tafs = Inr ?tt"
    by (rule taf_texts_typed [OF TafReport_rawTAF [OF assms(3)]])
  have n: "\<not> (?mt = [] \<and> ?tt = [])" using assms(4) m t by auto
  have d: "airport_directory metars = Inr ?d"
    by (rule airport_directory_typed [OF MetarReport_stationId [OF assms(2)]])
  have ev: "snd (generate_summary_with_gemini e metars tafs) = [Generate_content ?p]"
    using n by (simp add: generate_configured [OF assms(1) m t] d split: sum.splits)
  then have "Generate_content ?p \<in> set (snd (generate_summary_with_gemini e metars tafs))"
    by simp
  from generate_invoked_result [OF assms(1) this]
  have "\<forall>text. g ?p = Inr text \<longrightarrow>
      generate_summary_with_gemini e metars tafs = (Inr text, [Generate_content ?p])"
    by simp
  with ev show ?thesis by blast
qed

text \<open>A model that answers with markup outside the skeleton: the answer is the summary.\<close>

theorem ai_text_returned_unmodified_witness:
  "fst (generate_summary_with_gemini
     \<lparr>model = Some (\<lambda>p. Inr ''<script>alert(1)</script> not the skeleton''),
      requests_get = (\<lambda>u. Inl RequestException), getenv = Map.empty\<rparr>
     [[''stationId'' \<mapsto> PStr ''KJFK'', ''rawOb'' \<mapsto> PStr ''KJFK 041651Z 28012KT'']] []) =
   Inr ''<script>alert(1)</script> not the skeleton''"
proof -
  let ?g = "(\<lambda>p. Inr ''<script>alert(1)</script> not the skeleton'')
    :: string \<Rightarrow> exn + string"
  let ?e = "\<lparr>model = Some ?g, requests_get = (\<lambda>u. Inl RequestException),
    getenv = Map.empty\<rparr>"
  let ?ms = "[[''stationId'' \<mapsto> PStr ''KJFK'', ''rawOb'' \<mapsto> PStr ''KJFK 041651Z 28012KT'']]
    :: report list"
  have e: "model ?e = Some ?g" by simp
  have a: "list_all MetarReport ?ms" by (simp add: MetarReport_def str_field_def)
  have b: "list_all TafReport ([] :: report list)" by simp
  have c: "metar_texts ?ms \<noteq> Inr [] \<or> taf_texts [] \<noteq> Inr []"
    by (simp add: metar_texts_def str_join_def dict_get_def)
  from ai_text_returned_unmodified [OF e a b c] show ?thesis by auto
qed

text \<open>
  Claim C10: the TAF reports do not reach the fallback documents or the airport
  directory. For the same METAR reports and any two lists of TAF reports: without a model
  the two runs are equal; two runs in which the call of the model raised both return the
  document of lines 137-154 for the route label of the METAR reports; and whenever the
  model is called, for any TAF reports, the directory of its prompt is the one built from
  the \<open>stationId\<close> values of the METAR reports.
\<close>

theorem tafs_do_not_reach_fallbacks:
  "(model e = None \<longrightarrow>
      generate_summary_with_gemini e metars tafs1 =
      generate_summary_with_gemini e metars tafs2) \<and>
   (model e = Some g \<and>
    Generate_content p1 \<in> set (snd (generate_summary_with_gemini e metars tafs1)) \<and>
    g p1 = Inl x1 \<and>
    Generate_content p2 \<in> set (snd (generate_summary_with_gemini e metars tafs2)) \<and>
    g p2 = Inl x2 \<longrightarrow>
      fst (generate_summary_with_gemini e metars tafs1) =
        Inr (error_summary (spec_route_label metars)) \<and>
      fst (generate_summary_with_gemini e metars tafs2) =
        fst (generate_summary_with_gemini e metars tafs1)) \<and>
   (\<forall>tafs. snd (generate_summary_with_gemini e metars tafs) = [] \<or>
      (\<exists>wd. snd (generate_summary_with_gemini e metars tafs) =
         [Generate_content
            (prompt (pilot_profile e)
               (join_strs arrow (sorted_list_of_set (set (spec_station_ids metars)))) wd)]))"
proof (intro conjI impI allI)
  assume "model e = None"
  then show "generate_summary_with_gemini e metars tafs1 =
      generate_summary_with_gemini e metars tafs2"
    by (simp add: generate_unconfigured)
next
  assume h: "model e = Some g \<and>
    Generate_content p1 \<in> set (snd (generate_summary_with_gemini e metars tafs1)) \<and>
    g p1 = Inl x1 \<and>
    Generate_content p2 \<in> set (snd (generate_summary_with_gemini e metars tafs2)) \<and>
    g p2 = Inl x2"
  then have 1: "generate_summary_with_gemini e metars tafs1 =
      (Inr (error_summary (spec_route_label metars)), [Generate_content p1])"
    using generate_invoked_result [of e g p1 metars tafs1] by simp
  from h have 2: "generate_summary_with_gemini e metars tafs2 =
      (Inr (error_summary (spec_route_label metars)), [Generate_content p2])"
    using generate_invoked_result [of e g p2 metars tafs2] by simp
  show "fst (generate_summary_with_gemini e metars tafs1) =
      Inr (error_summary (spec_route_label metars))"
    by (simp add: 1)
  show "fst (generate_summary_with_gemini e metars tafs2) =
      fst (generate_summary_with_gemini e metars tafs1)"
    by (simp add: 1 2)
next
  fix tafs
  show "snd (generate_summary_with_gemini e metars tafs) = [] \<or>
      (\<exists>wd. snd (generate_summary_with_gemini e metars tafs) =
         [Generate_content
            (prompt (pilot_profile e)
               (join_strs arrow (sorted_list_of_set (set (spec_station_ids metars)))) wd)])"
    by (rule generate_events_directory)
qed

text \<open>
  A METAR of KJFK, with a TAF of KBOS or with no TAF: without a model the two runs are
  equal; with a model that raises both give the document for the route KJFK, and the
  prompt of the run with the KBOS TAF has the directory KJFK.
\<close>

theorem tafs_do_not_reach_fallbacks_witness:
  "generate_summary_with_gemini
     \<lparr>model = None, requests_get = (\<lambda>u. Inl RequestException), getenv = Map.empty\<rparr>
     [[''stationId'' \<mapsto> PStr ''KJFK'', ''rawOb'' \<mapsto> PStr ''KJFK 041651Z'']]
     [[''stationId'' \<mapsto> PStr ''KBOS'', ''rawTAF'' \<mapsto> PStr ''TAF KBOS 041130Z'']] =
   generate_summary_with_gemini
     \<lparr>model = None, requests_get = (\<lambda>u. Inl RequestException), getenv = Map.empty\<rparr>
     [[''stationId'' \<mapsto> PStr ''KJFK'', ''rawOb'' \<mapsto> PStr ''KJFK 041651Z'']] [] \<and>
   fst (generate_summary_with_gemini
     \<lparr>model = Some (\<lambda>p. Inl OtherException), requests_get = (\<lambda>u. Inl RequestException),
      getenv = Map.empty\<rparr>
     [[''stationId'' \<mapsto> PStr ''KJFK'', ''rawOb'' \<mapsto> PStr ''KJFK 041651Z'']]
     [[''stationId'' \<mapsto> PStr ''KBOS'', ''rawTAF'' \<mapsto> PStr ''TAF KBOS 041130Z'']]) =
     Inr (error_summary ''KJFK'') \<and>
   fst (generate_summary_with_gemini
     \<lparr>model = Some (\<lambda>p. Inl OtherException), requests_get = (\<lambda>u. Inl RequestException),
      getenv = Map.empty\<rparr>
     [[''stationId'' \<mapsto> PStr ''KJFK'', ''rawOb'' \<mapsto> PStr ''KJFK 041651Z'']] []) =
     Inr (error_summary ''KJFK'') \<and>
   snd (generate_summary_with_gemini
     \<lparr>model = Some (\<lambda>p. Inl OtherException), requests_get = (\<lambda>u. Inl RequestException),
      getenv = Map.empty\<rparr>
     [[''stationId'' \<mapsto> PStr ''KJFK'', ''rawOb'' \<mapsto> PStr ''KJFK 041651Z'']]
     [[''stationId'' \<mapsto> PStr ''KBOS'', ''rawTAF'' \<mapsto> PStr ''TAF KBOS 041130Z'']]) =
     [Generate_content (prompt ''General aviation VFR pilot'' ''KJFK''
        (weather_data ''KJFK 041651Z'' ''TAF KBOS 041130Z''))]"
proof -
  let ?g = "(\<lambda>p. Inl OtherException) :: string \<Rightarrow> exn + string"
  let ?e0 = "\<lparr>model = None, requests_get = (\<lambda>u. Inl RequestException),
    getenv = Map.empty\<rparr>"
  let ?e1 = "\<lparr>model = Some ?g, requests_get = (\<lambda>u. Inl RequestException),
    getenv = Map.empty\<rparr>"
  let ?ms = "[[''stationId'' \<mapsto> PStr ''KJFK'', ''rawOb'' \<mapsto> PStr ''KJFK 041651Z'']]
    :: report list"
  let ?t1 = "[[''stationId'' \<mapsto> PStr ''KBOS'', ''rawTAF'' \<mapsto> PStr ''TAF KBOS 041130Z'']]
    :: report list"
  let ?p1 = "prompt ''General aviation VFR pilot'' ''KJFK''
        (weather_data ''KJFK 041651Z'' ''TAF KBOS 041130Z'')"
  let ?p2 = "prompt ''General aviation VFR pilot'' ''KJFK'' (weather_data ''KJFK 041651Z'' [])"
  have s1: "snd (generate_summary_with_gemini ?e1 ?ms ?t1) = [Generate_content ?p1]"
    by (simp add: generate_summary_with_gemini_def metar_texts_def taf_texts_def str_join_def
        dict_get_def airport_directory_def icao_codes_def pilot_profile_def route_def)
  have s2: "snd (generate_summary_with_gemini ?e1 ?ms []) = [Generate_content ?p2]"
    by (simp add: generate_summary_with_gemini_def metar_texts_def taf_texts_def str_join_def
        dict_get_def airport_directory_def icao_codes_def pilot_profile_def route_def)
  have l: "spec_route_label ?ms = ''KJFK''"
    by (simp add: spec_route_label_def spec_station_ids_def field_text_def)
  show ?thesis
    using
      tafs_do_not_reach_fallbacks [of ?e0 ?ms ?t1 "[]" ?g ?p1 OtherException ?p2 OtherException]
      tafs_do_not_reach_fallbacks [of ?e1 ?ms ?t1 "[]" ?g ?p1 OtherException ?p2 OtherException]
    by (simp add: s1 s2 l)
qed

section \<open>The fetch functions\<close>

lemma try_fetch_failure:
  "requests_get e url = Inl RequestException \<or>
   (\<exists>r. requests_get e url = Inr r \<and> 400 \<le> status_code r \<and> status_code r < 600) \<Longrightarrow>
   try_fetch e url = Inr []"
  by (auto simp: try_fetch_def except_RequestException_def raise_for_status_def)

lemma try_fetch_upstream:
  assumes "upstream_outcome P (requests_get e url)"
  shows "\<exists>reports. try_fetch e url = Inr reports \<and> list_all P reports"
proof (cases "requests_get e url")
  case (Inl x)
  then show ?thesis
    using assms by (simp add: upstream_outcome_def try_fetch_def except_RequestException_def)
next
  case (Inr r)
  show ?thesis
  proof (cases "400 \<le> status_code r \<and> status_code r < 600")
    case True
    then show ?thesis
      using Inr by (simp add: try_fetch_def except_RequestException_def raise_for_status_def)
  next
    case False
    then show ?thesis
      using Inr assms
      by (auto simp: upstream_outcome_def try_fetch_def except_RequestException_def
          raise_for_status_def split: sum.splits)
  qed
qed

text \<open>
  Claim C5: when the upstream fetch meets a transport failure (\<^verbatim>\<open>requests.get\<close> raises a
  \<^verbatim>\<open>RequestException\<close>) or a non-success status (one that \<^verbatim>\<open>raise_for_status\<close> rejects, 400
  to 599), \<^verbatim>\<open>get_metar_data\<close> and \<^verbatim>\<open>get_taf_data\<close> do not raise and return the empty list,
  after the one request.
\<close>

theorem fetch_failure_gives_empty:
  "(requests_get e (metar_url c) = Inl RequestException \<or>
    (\<exists>r. requests_get e (metar_url c) = Inr r \<and> 400 \<le> status_code r \<and> status_code r < 600)
      \<longrightarrow> get_metar_data e c = (Inr [], [Http_get (metar_url c)])) \<and>
   (requests_get e (taf_url c) = Inl RequestException \<or>
    (\<exists>r. requests_get e (taf_url c) = Inr r \<and> 400 \<le> status_code r \<and> status_code r < 600)
      \<longrightarrow> get_taf_data e c = (Inr [], [Http_get (taf_url c)]))"
  by (simp add: get_metar_data_def get_taf_data_def try_fetch_failure)

text \<open>
  A server that answers 503, with a body that would decode, to the METAR request; and a
  connection that fails for the TAF request.
\<close>

theorem fetch_failure_gives_empty_witness:
  "get_metar_data
     \<lparr>model = None,
      requests_get =
        (\<lambda>u. Inr \<lparr>status_code = 503, json = Inr [[''stationId'' \<mapsto> PStr ''KJFK'']]\<rparr>),
      getenv = Map.empty\<rparr> ''KJFK,KBOS'' =
     (Inr [],
      [Http_get
         ''https://aviationweather.gov/api/data/metar?ids=KJFK,KBOS&format=json&latlon=true'']) \<and>
   get_taf_data
     \<lparr>model = None, requests_get = (\<lambda>u. Inl RequestException), getenv = Map.empty\<rparr>
     ''KJFK,KBOS'' =
     (Inr [], [Http_get ''https://aviationweather.gov/api/data/taf?ids=KJFK,KBOS&format=json''])"
  using
    fetch_failure_gives_empty [of
      "\<lparr>model = None,
        requests_get =
          (\<lambda>u. Inr \<lparr>status_code = 503, json = Inr [[''stationId'' \<mapsto> PStr ''KJFK'']]\<rparr>),
        getenv = Map.empty\<rparr>" "''KJFK,KBOS''"]
    fetch_failure_gives_empty [of
      "\<lparr>model = None, requests_get = (\<lambda>u. Inl RequestException), getenv = Map.empty\<rparr>"
      "''KJFK,KBOS''"]
  by (simp add: metar_url_def taf_url_def)

section \<open>The pipeline\<close>

text \<open>On reports of the specification's types the summary never raises.\<close>

lemma generate_typed:
  assumes "list_all MetarReport metars" and "list_all TafReport tafs"
  shows "\<exists>s. fst (generate_summary_with_gemini e metars tafs) = Inr s"
proof (cases "model e")
  case None
  then show ?thesis
    by (simp add: generate_unconfigured route_typed [OF MetarReport_stationId [OF assms(1)]])
next
  case (Some g)
  show ?thesis
    by (simp add: generate_configured [OF Some metar_texts_typed [OF MetarReport_rawOb [OF assms(1)]]
          taf_texts_typed [OF TafReport_rawTAF [OF assms(2)]]]
        airport_directory_typed [OF MetarReport_stationId [OF assms(1)]] split: sum.splits)
qed

text \<open>
  Lines 59, 80, 81 and 88 stand in no handler, and \<^verbatim>\<open>get_briefing\<close> has none. For the
  request \<open>codes=KJFK\<close>: without a model, a METAR whose \<open>stationId\<close> is the number 123
  makes the join of line 59 raise \<^verbatim>\<open>TypeError\<close>; with a model, a METAR whose \<open>rawOb\<close> is null
  makes the join of line 80 raise it. Both times the exception leaves \<^verbatim>\<open>get_briefing\<close>
  after the two fetches: a failure that is no missing parameter reaches the caller. This
  refutes claim C4 as it is stated.
\<close>

theorem uncaught_type_error_counterexample:
  "get_briefing
     \<lparr>model = None,
      requests_get =
        (\<lambda>u. Inr \<lparr>status_code = 200, json = Inr [[''stationId'' \<mapsto> PInt 123]]\<rparr>),
      getenv = Map.empty\<rparr>
     [''codes'' \<mapsto> ''KJFK''] =
     (Inl TypeError, [Http_get (metar_url ''KJFK''), Http_get (taf_url ''KJFK'')]) \<and>
   get_briefing
     \<lparr>model = Some (\<lambda>p. Inr ''ok''),
      requests_get = (\<lambda>u. Inr \<lparr>status_code = 200, json = Inr [[''rawOb'' \<mapsto> PNone]]\<rparr>),
      getenv = Map.empty\<rparr>
     [''codes'' \<mapsto> ''KJFK''] =
     (Inl TypeError, [Http_get (metar_url ''KJFK''), Http_get (taf_url ''KJFK'')])"
  by (simp add: get_briefing_def get_metar_data_def get_taf_data_def try_fetch_def
      raise_for_status_def generate_summary_with_gemini_def route_def icao_codes_def
      metar_texts_def str_join_def dict_get_def Let_def)

text \<open>
  Claim C4, amended: whenever the call of the model raises, whatever the exception, the
  summary is the document of lines 137-154, written out below (the text \<open>AI weather
  analysis temporarily unavailable\<close> in the HTML skeleton, with the route label in the
  Route Summary cell), and the exception goes no further. In the pipeline, for a \<open>codes\<close>
  parameter that is not empty: when each of the two fetches either fails with a
  \<^verbatim>\<open>RequestException\<close>, meets a status from 400 to 599, has a body whose decoding raises a
  \<^verbatim>\<open>RequestException\<close>, or yields a list of report objects whose \<open>stationId\<close> and \<open>rawOb\<close>
  (METAR) and \<open>rawTAF\<close> (TAF) are text when present, then, whether the model is missing,
  raises or answers, \<^verbatim>\<open>get_briefing\<close> makes both fetches and replies with status 200 and
  the three fields: the summary of the fetched reports and the two fetched lists.
\<close>

theorem ai_error_absorbed:
  \<open>(model e = Some g \<and>
    Generate_content p \<in> set (snd (generate_summary_with_gemini e metars tafs)) \<and>
    g p = Inl x \<longrightarrow>
      generate_summary_with_gemini e metars tafs =
        (Inr (''\<newline>'' @
              ''<div class="briefing-content">\<newline>'' @
              ''  <table class="briefing-table">\<newline>'' @
              ''    <tr><th>Route Summary</th><td>Weather briefing for '' @
                spec_route_label metars @
                ''. Please check official weather sources for current conditions.</td></tr>\<newline>'' @
              ''    <tr><th>Recommendations</th><td>Monitor weather conditions and maintain standard flight procedures.</td></tr>\<newline>'' @
              ''  </table>\<newline>'' @
              ''  \<newline>'' @
              ''  <div class="per-airport-section">\<newline>'' @
              ''    <button class="read-more-btn" onclick="togglePerAirport()">Read More >></button>\<newline>'' @
              ''    <div class="per-airport-content" style="display:none;">\<newline>'' @
              ''      <h3>Per-Airport Conditions</h3>\<newline>'' @
              ''      <ul>\<newline>'' @
              ''        <li><strong>Note</strong>: AI weather analysis temporarily unavailable. Please check official weather sources.</li>\<newline>'' @
              ''      </ul>\<newline>'' @
              ''    </div>\<newline>'' @
              ''  </div>\<newline>'' @
              ''</div>\<newline>'' @
              ''        ''),
         [Generate_content p])) \<and>
   (args ''codes'' = Some codes \<and> codes \<noteq> [] \<and>
    upstream_outcome MetarReport (requests_get e (metar_url codes)) \<and>
    upstream_outcome TafReport (requests_get e (taf_url codes)) \<longrightarrow>
      (\<exists>summary metar_reports taf_reports evs.
         fst (get_metar_data e codes) = Inr metar_reports \<and>
         fst (get_taf_data e codes) = Inr taf_reports \<and>
         generate_summary_with_gemini e metar_reports taf_reports = (Inr summary, evs) \<and>
         get_briefing e args =
           (Inr (Briefing_json summary metar_reports taf_reports, 200),
            Http_get (metar_url codes) # Http_get (taf_url codes) # evs)))\<close>
proof (intro conjI impI)
  assume "model e = Some g \<and>
    Generate_content p \<in> set (snd (generate_summary_with_gemini e metars tafs)) \<and>
    g p = Inl x"
  then have "generate_summary_with_gemini e metars tafs =
        (Inr (error_summary (spec_route_label metars)), [Generate_content p])"
    using generate_invoked_result [of e g p metars tafs] by simp
  then show \<open>generate_summary_with_gemini e metars tafs =
        (Inr (''\<newline>'' @
              ''<div class="briefing-content">\<newline>'' @
              ''  <table class="briefing-table">\<newline>'' @
              ''    <tr><th>Route Summary</th><td>Weather briefing for '' @
                spec_route_label metars @
                ''. Please check official weather sources for current conditions.</td></tr>\<newline>'' @
              ''    <tr><th>Recommendations</th><td>Monitor weather conditions and maintain standard flight procedures.</td></tr>\<newline>'' @
              ''  </table>\<newline>'' @
              ''  \<newline>'' @
              ''  <div class="per-airport-section">\<newline>'' @
              ''    <button class="read-more-btn" onclick="togglePerAirport()">Read More >></button>\<newline>'' @
              ''    <div class="per-airport-content" style="display:none;">\<newline>'' @
              ''      <h3>Per-Airport Conditions</h3>\<newline>'' @
              ''      <ul>\<newline>'' @
              ''        <li><strong>Note</strong>: AI weather analysis temporarily unavailable. Please check official weather sources.</li>\<newline>'' @
              ''      </ul>\<newline>'' @
              ''    </div>\<newline>'' @
              ''  </div>\<newline>'' @
              ''</div>\<newline>'' @
              ''        ''),
         [Generate_content p])\<close>
    by (simp only: error_summary_def)
next
  assume h: "args ''codes'' = Some codes \<and> codes \<noteq> [] \<and>
    upstream_outcome MetarReport (requests_get e (metar_url codes)) \<and>
    upstream_outcome TafReport (requests_get e (taf_url codes))"
  from h try_fetch_upstream [of MetarReport e "metar_url codes"]
  obtain ms where ms: "try_fetch e (metar_url codes) = Inr ms" "list_all MetarReport ms"
    by blast
  from h try_fetch_upstream [of TafReport e "taf_url codes"]
  obtain ts where ts: "try_fetch e (taf_url codes) = Inr ts" "list_all TafReport ts"
    by blast
  from generate_typed [OF ms(2) ts(2)]
  obtain s where s: "fst (generate_summary_with_gemini e ms ts) = Inr s" by blast
  then obtain ev where ev: "generate_summary_with_gemini e ms ts = (Inr s, ev)"
    by (cases "generate_summary_with_gemini e ms ts") simp
  then have "get_briefing e args =
      (Inr (Briefing_json s ms ts, 200),
       Http_get (metar_url codes) # Http_get (taf_url codes) # ev)"
    using h ms(1) ts(1)
    by (simp add: get_briefing_def dict_get_def get_metar_data_def get_taf_data_def)
  moreover have "fst (get_metar_data e codes) = Inr ms"
    using ms(1) by (simp add: get_metar_data_def)
  moreover have "fst (get_taf_data e codes) = Inr ts"
    using ts(1) by (simp add: get_taf_data_def)
  ultimately show "\<exists>summary metar_reports taf_reports evs.
         fst (get_metar_data e codes) = Inr metar_reports \<and>
         fst (get_taf_data e codes) = Inr taf_reports \<and>
         generate_summary_with_gemini e metar_reports taf_reports = (Inr summary, evs) \<and>
         get_briefing e args =
           (Inr (Briefing_json summary metar_reports taf_reports, 200),
            Http_get (metar_url codes) # Http_get (taf_url codes) # evs)"
    using ev by blast
qed

text \<open>
  A model that raises on a METAR of KJFK: the document for the route KJFK. And the request
  \<open>codes=KJFK\<close> with that model, a METAR fetch that yields the report and a TAF fetch that
  meets status 503: a reply with status 200, the METAR and no TAF.
\<close>

theorem ai_error_absorbed_witness:
  "generate_summary_with_gemini
     \<lparr>model = Some (\<lambda>p. Inl OtherException), requests_get = (\<lambda>u. Inl RequestException),
      getenv = Map.empty\<rparr>
     [[''stationId'' \<mapsto> PStr ''KJFK'', ''rawOb'' \<mapsto> PStr ''KJFK 041651Z'']] [] =
     (Inr (error_summary ''KJFK''),
      [Generate_content (prompt ''General aviation VFR pilot'' ''KJFK''
         (weather_data ''KJFK 041651Z'' []))]) \<and>
   (\<exists>summary evs.
      get_briefing
        \<lparr>model = Some (\<lambda>p. Inl OtherException),
         requests_get = (\<lambda>u. if u = metar_url ''KJFK''
            then Inr \<lparr>status_code = 200,
                      json = Inr [[''stationId'' \<mapsto> PStr ''KJFK'',
                                   ''rawOb'' \<mapsto> PStr ''KJFK 041651Z'']]\<rparr>
            else Inr \<lparr>status_code = 503, json = Inl OtherException\<rparr>),
         getenv = Map.empty\<rparr>
        [''codes'' \<mapsto> ''KJFK''] =
        (Inr (Briefing_json summary
                [[''stationId'' \<mapsto> PStr ''KJFK'', ''rawOb'' \<mapsto> PStr ''KJFK 041651Z'']] [],
              200),
         Http_get (metar_url ''KJFK'') # Http_get (taf_url ''KJFK'') # evs))"
proof -
  let ?g = "(\<lambda>p. Inl OtherException) :: string \<Rightarrow> exn + string"
  let ?e1 = "\<lparr>model = Some ?g, requests_get = (\<lambda>u. Inl RequestException),
    getenv = Map.empty\<rparr>"
  let ?ms = "[[''stationId'' \<mapsto> PStr ''KJFK'', ''rawOb'' \<mapsto> PStr ''KJFK 041651Z'']]
    :: report list"
  let ?p = "prompt ''General aviation VFR pilot'' ''KJFK'' (weather_data ''KJFK 041651Z'' [])"
  let ?e2 = "\<lparr>model = Some ?g,
         requests_get = (\<lambda>u. if u = metar_url ''KJFK''
            then Inr \<lparr>status_code = 200, json = Inr ?ms\<rparr>
            else Inr \<lparr>status_code = 503, json = Inl OtherException\<rparr>),
         getenv = Map.empty\<rparr>"
  have s: "snd (generate_summary_with_gemini ?e1 ?ms []) = [Generate_content ?p]"
    by (simp add: generate_summary_with_gemini_def metar_texts_def taf_texts_def str_join_def
        dict_get_def airport_directory_def icao_codes_def pilot_profile_def route_def)
  have l: "spec_route_label ?ms = ''KJFK''"
    by (simp add: spec_route_label_def spec_station_ids_def field_text_def)
  have u1: "upstream_outcome MetarReport (requests_get ?e2 (metar_url ''KJFK''))"
    by (simp add: upstream_outcome_def MetarReport_def str_field_def)
  have u2: "upstream_outcome TafReport (requests_get ?e2 (taf_url ''KJFK''))"
    by (simp add: upstream_outcome_def metar_url_def taf_url_def)
  show ?thesis
    using
      ai_error_absorbed [of ?e1 ?g ?p ?ms "[]" OtherException "[''codes'' \<mapsto> ''KJFK'']"
        "''KJFK''"]
      ai_error_absorbed [of ?e2 ?g ?p ?ms "[]" OtherException "[''codes'' \<mapsto> ''KJFK'']"
        "''KJFK''"]
      s l u1 u2
    by (auto simp add: error_summary_def get_metar_data_def get_taf_data_def try_fetch_def
        raise_for_status_def except_RequestException_def metar_url_def taf_url_def)
qed

text \<open>
  Claim C3: a request whose \<open>codes\<close> parameter is absent or the empty string gets the
  reply \<open>{"error": "No ICAO codes provided"}\<close> with status 400, and nothing is fetched and
  the model is not called. No other request is rejected: for any other value of \<open>codes\<close>
  the reply is never an error object, and the METAR fetch for this value is made.
\<close>

theorem missing_codes_rejected:
  "(args ''codes'' = None \<or> args ''codes'' = Some [] \<longrightarrow>
      get_briefing e args = (Inr (Error_json ''No ICAO codes provided'', 400), [])) \<and>
   (args ''codes'' = Some codes \<and> codes \<noteq> [] \<longrightarrow>
      (\<forall>msg st. fst (get_briefing e args) \<noteq> Inr (Error_json msg, st)) \<and>
      (\<exists>evs. snd (get_briefing e args) = Http_get (metar_url codes) # evs))"
proof (intro conjI impI allI)
  assume "args ''codes'' = None \<or> args ''codes'' = Some []"
  then show "get_briefing e args = (Inr (Error_json ''No ICAO codes provided'', 400), [])"
    by (auto simp: get_briefing_def dict_get_def)
next
  fix msg st
  assume "args ''codes'' = Some codes \<and> codes \<noteq> []"
  then show "fst (get_briefing e args) \<noteq> Inr (Error_json msg, st)"
    by (auto simp: get_briefing_def dict_get_def split: prod.splits sum.splits)
next
  assume "args ''codes'' = Some codes \<and> codes \<noteq> []"
  then show "\<exists>evs. snd (get_briefing e args) = Http_get (metar_url codes) # evs"
    by (auto simp: get_briefing_def dict_get_def get_metar_data_def Let_def
        split: prod.splits sum.splits)
qed

text \<open>
  No parameter, an empty parameter, and a parameter that is no ICAO code: the first two
  are rejected with no call, the third is not rejected.
\<close>

theorem missing_codes_rejected_witness:
  "get_briefing
     \<lparr>model = None, requests_get = (\<lambda>u. Inl RequestException), getenv = Map.empty\<rparr>
     Map.empty = (Inr (Error_json ''No ICAO codes provided'', 400), []) \<and>
   get_briefing
     \<lparr>model = None, requests_get = (\<lambda>u. Inl RequestException), getenv = Map.empty\<rparr>
     [''codes'' \<mapsto> ''''] = (Inr (Error_json ''No ICAO codes provided'', 400), []) \<and>
   fst (get_briefing
     \<lparr>model = None, requests_get = (\<lambda>u. Inl RequestException), getenv = Map.empty\<rparr>
     [''codes'' \<mapsto> ''not an ICAO code'']) \<noteq>
     Inr (Error_json ''No ICAO codes provided'', 400)"
  using
    missing_codes_rejected [of Map.empty
      "\<lparr>model = None, requests_get = (\<lambda>u. Inl RequestException), getenv = Map.empty\<rparr>"]
    missing_codes_rejected [of "[''codes'' \<mapsto> '''']"
      "\<lparr>model = None, requests_get = (\<lambda>u. Inl RequestException), getenv = Map.empty\<rparr>"]
    missing_codes_rejected [of "[''codes'' \<mapsto> ''not an ICAO code'']"
      "\<lparr>model = None, requests_get = (\<lambda>u. Inl RequestException), getenv = Map.empty\<rparr>"
      "''not an ICAO code''"]
  by simp

end
